theory Spec2Isabelle
  imports Complex_Main
begin

section \<open>Errors\<close>

text \<open>
  The Python exceptions that the functions of \<^verbatim>\<open>correct.py\<close> raise themselves or let
  through from the calls they make. An exception is a value: a function that can raise
  returns \<open>error + 'a\<close>, with \<open>Inl\<close> for the exception, or \<open>error option\<close> beside the
  state it leaves when it has nothing else to return.
\<close>

datatype error =
    ValueError string
  | KeyError string
  | IndexError
  | FileNotFoundError string
  | SameFileError string
  | ArrowInvalid string
  | DataShapeError
  | LibraryError string

type_synonym path = string

section \<open>The Best-Result Selector\<close>

text \<open>
  An evaluation map is a parquet file holding a data frame. Only numeric columns matter
  here; a column is a list of cells and a cell is \<open>None\<close> where pandas holds NaN (a missing
  value). A cell that is present is a 64-bit float, taken as the real it denotes.
\<close>

type_synonym column = "real option list"
type_synonym frame = "(string \<times> column) list"
type_synonym pfs = "path \<rightharpoonup> frame"

text \<open>
  Two things that \<^verbatim>\<open>select_best\<close> leaves to pandas are not fixed by the code and are
  parameters of the model.
  \<^item> \<^verbatim>\<open>column.mean()\<close> is computed in 64-bit floating point, with its rounding: \<open>mean\<close>
    gives the mean that pandas computes for a column, \<open>None\<close> when it is NaN.
  \<^item> \<^verbatim>\<open>sort_values()\<close> is called with the default \<^verbatim>\<open>kind='quicksort'\<close>, which is not
    stable: the order that it leaves among entries of equal value is not specified.
    \<open>tie_rank vs i\<close> is the rank, among the entries of its value, of the entry at position
    \<open>i\<close> when the values \<open>vs\<close> are sorted. Every ascending order of the entries is the
    order of one \<open>tie_rank\<close>; a constant \<open>tie_rank\<close> is a stable sort.
\<close>

record pandas =
  mean :: "column \<Rightarrow> real option"
  tie_rank :: "real list \<Rightarrow> nat \<Rightarrow> nat"

text \<open>
  \<^verbatim>\<open>pd.read_parquet(map_file)\<close>: the frame stored at the path; a missing file raises.
\<close>

definition read_parquet :: "pfs \<Rightarrow> path \<Rightarrow> error + frame" where
  "read_parquet fs p = (case fs p of None \<Rightarrow> Inl (FileNotFoundError p) | Some fr \<Rightarrow> Inr fr)"

text \<open>\<^verbatim>\<open>frame[name]\<close>: the column of that name, \<^verbatim>\<open>KeyError\<close> when the frame has none.\<close>

definition getitem :: "frame \<Rightarrow> string \<Rightarrow> error + column" where
  "getitem fr name = (case map_of fr name of None \<Rightarrow> Inl (KeyError name) | Some c \<Rightarrow> Inr c)"

text \<open>
  \<^verbatim>\<open>scores = pd.Series()\<close> with \<^verbatim>\<open>scores[parquet_file] = mean_map\<close>: a series is an ordered
  list of (label, value) entries with distinct labels. Assigning to a label that is present
  overwrites its value where it stands; a new label is appended.
\<close>

type_synonym series = "(path \<times> real option) list"

fun series_set :: "series \<Rightarrow> path \<Rightarrow> real option \<Rightarrow> series" where
  "series_set [] k v = [(k, v)]"
| "series_set ((k', v') # s) k v =
     (if k' = k then (k, v) # s else (k', v') # series_set s k v)"

text \<open>
  \<^verbatim>\<open>scores.sort_values()\<close>: the entries that are not NaN in ascending order of their
  values, then the NaN entries in their original order (\<^verbatim>\<open>na_position='last'\<close>). The
  entries that are not NaN are numbered, ordered by their rank among equal values and then
  sorted by value with a sort that keeps that order among equal values.
\<close>

definition sort_values :: "pandas \<Rightarrow> series \<Rightarrow> series" where
  "sort_values pd s =
     (let present = filter (\<lambda>e. \<not> Option.is_none (snd e)) s;
          vs = map (\<lambda>e. the (snd e)) present;
          ranked = sort_key (\<lambda>ie. tie_rank pd vs (fst ie)) (enumerate 0 present)
      in map snd (sort_key (\<lambda>ie. the (snd (snd ie))) ranked)
           @ filter (\<lambda>e. Option.is_none (snd e)) s)"

text \<open>\<^verbatim>\<open>index[-1]\<close>: the label of the last entry; \<^verbatim>\<open>IndexError\<close> on an empty series.\<close>

definition index_last :: "series \<Rightarrow> error + path" where
  "index_last s = (if s = [] then Inl IndexError else Inr (fst (last s)))"

text \<open>
  \<^verbatim>\<open>shutil.copy(src, dst)\<close>: the destination receives the content of the source. A missing
  source raises, and so does a destination that is the source itself.
\<close>

definition copy :: "pfs \<Rightarrow> path \<Rightarrow> path \<Rightarrow> error + pfs" where
  "copy fs src dst =
     (case fs src of
        None \<Rightarrow> Inl (FileNotFoundError src)
      | Some content \<Rightarrow> if src = dst then Inl (SameFileError src) else Inr (fs(dst \<mapsto> content)))"

text \<open>
  \<^verbatim>\<open>pd.read_parquet(map_file)['mean_average_precision'].mean()\<close>, the score that the
  loop of \<^verbatim>\<open>select_best\<close> computes for one map file.
\<close>

definition mean_map :: "pandas \<Rightarrow> pfs \<Rightarrow> path \<Rightarrow> error + real option" where
  "mean_map pd fs map_file =
     (case read_parquet fs map_file of
        Inl e \<Rightarrow> Inl e
      | Inr fr \<Rightarrow>
          (case getitem fr ''mean_average_precision'' of
             Inl e \<Rightarrow> Inl e
           | Inr c \<Rightarrow> Inr (mean pd c)))"

text \<open>
  The loop of \<^verbatim>\<open>select_best\<close> over the zipped pairs, with the series as accumulator. It
  stops at the first pair whose map file cannot be read or has no score column.
\<close>

fun score_loop :: "pandas \<Rightarrow> pfs \<Rightarrow> (path \<times> path) list \<Rightarrow> series \<Rightarrow> error + series" where
  "score_loop pd fs [] scores = Inr scores"
| "score_loop pd fs ((map_file, parquet_file) # rest) scores =
     (case mean_map pd fs map_file of
        Inl e \<Rightarrow> Inl e
      | Inr m \<Rightarrow> score_loop pd fs rest (series_set scores parquet_file m))"

text \<open>
  \<^verbatim>\<open>select_best(map_files, parquet_files, best_path)\<close>. The only write is the final copy, so
  a result \<open>Inl e\<close> leaves the file system as it was.
\<close>

definition select_best ::
  "pandas \<Rightarrow> pfs \<Rightarrow> path list \<Rightarrow> path list \<Rightarrow> path \<Rightarrow> error + pfs" where
  "select_best pd fs map_files parquet_files best_path =
     (case score_loop pd fs (zip map_files parquet_files) [] of
        Inl e \<Rightarrow> Inl e
      | Inr scores \<Rightarrow>
          (case index_last (sort_values pd scores) of
             Inl e \<Rightarrow> Inl e
           | Inr best_parquet \<Rightarrow> copy fs best_parquet best_path))"

section \<open>Tabular datasets and the whitening library\<close>

text \<open>
  A values matrix is a numpy array: its element type, its number of columns (kept apart
  from the rows, since an array with no row still has its columns) and its rows.
\<close>

datatype dtype = Float32 | Float64

record ndarray =
  dtype :: dtype
  ncols :: nat
  rows :: "real list list"

definition shape :: "ndarray \<Rightarrow> nat \<times> nat" where
  "shape a = (length (rows a), ncols a)"

text \<open>
  The metadata part of a dataset is a data frame of labels: its number of rows and its
  named columns, each with one cell per row.
\<close>

record meta =
  n_rows :: nat
  columns :: "(string \<times> string list) list"

record dataset =
  metadata :: meta
  value_matrix :: ndarray
  features :: "string list"

text \<open>
  \<^verbatim>\<open>ZCA_corr(regularization=lambda_)\<close> and \<^verbatim>\<open>ZCA(regularization=lambda_)\<close>: an operator
  that is not fitted yet is its variant and its regularization.
\<close>

datatype zca_kind = ZCA_corr | ZCA

record spherer =
  kind :: zca_kind
  regularization :: real

text \<open>
  The module \<^verbatim>\<open>zca\<close> is not part of the sources at hand. The numerical work of its two
  methods is a parameter of the model: \<open>decompose\<close> derives the fitted operator, of a type
  \<open>'op\<close> left open, from the operator and the training rows by the decomposition of their
  covariance or correlation matrix, or raises; \<open>transform\<close> applies a fitted operator to
  rows or raises. \<open>refusal\<close> is the message with which the library refuses a training
  matrix. \<open>float32\<close> is the rounding of a real to the nearest 32-bit float, that
  \<^verbatim>\<open>astype(np.float32)\<close> applies to every element.
\<close>

record 'op library =
  refusal :: "ndarray \<Rightarrow> string"
  decompose :: "spherer \<Rightarrow> ndarray \<Rightarrow> error + 'op"
  transform :: "'op \<Rightarrow> ndarray \<Rightarrow> error + ndarray"
  float32 :: "real \<Rightarrow> real"

text \<open>
  Modelled from the spec: the method \<^verbatim>\<open>fit\<close> of \<^verbatim>\<open>zca.ZCA\<close> and \<^verbatim>\<open>zca.ZCA_corr\<close>, which
  are not part of the sources at hand. Sections 4.2, 7 and 8 (property 5) of the
  specification: a training selection without rows is a fatal configuration error, raised
  before any decomposition is attempted; in Python it is a \<^verbatim>\<open>ValueError\<close>. On any other
  matrix the fitted operator is the one that the decomposition gives.
\<close>

definition fit :: "'op library \<Rightarrow> spherer \<Rightarrow> ndarray \<Rightarrow> error + 'op" where
  "fit lib s training =
     (if rows training = [] then Inl (ValueError (refusal lib training))
      else decompose lib s training)"

text \<open>
  The files that \<^verbatim>\<open>sphering\<close> reads and writes, and the calls it makes in the order it
  makes them: a call is recorded when it is made, whether it then returns or raises.
\<close>

datatype 'op stored = Parquet dataset | Npz 'op

datatype event =
    Split_parquet path
  | Fit spherer ndarray
  | Transform ndarray
  | Merge_parquet path dataset
  | Savez_compressed path

record 'op world =
  files :: "path \<rightharpoonup> 'op stored"
  trace :: "event list"

definition record_call :: "event \<Rightarrow> 'op world \<Rightarrow> 'op world" where
  "record_call ev w = w\<lparr>trace := trace w @ [ev]\<rparr>"

text \<open>
  Modelled from the spec: \<^verbatim>\<open>quality_control.io.split_parquet\<close>, which is not part of the
  sources at hand. Sections 3, 6 and 7 of the specification: it reads the three parts of
  the dataset stored at the path, and mismatched row or column counts between the parts
  are a fatal \<^verbatim>\<open>DataShapeError\<close>.
\<close>

definition split_parquet ::
  "'op world \<Rightarrow> path \<Rightarrow> (error + meta \<times> ndarray \<times> string list) \<times> 'op world" where
  "split_parquet w p =
     (let w' = record_call (Split_parquet p) w in
      case files w p of
        None \<Rightarrow> (Inl (FileNotFoundError p), w')
      | Some (Npz _) \<Rightarrow> (Inl (ArrowInvalid p), w')
      | Some (Parquet ds) \<Rightarrow>
          if n_rows (metadata ds) = length (rows (value_matrix ds))
             \<and> length (features ds) = ncols (value_matrix ds)
          then (Inr (metadata ds, value_matrix ds, features ds), w')
          else (Inl DataShapeError, w'))"

text \<open>
  Modelled from the spec: \<^verbatim>\<open>quality_control.io.merge_parquet\<close>, which is not part of the
  sources at hand. It is the inverse of the split: it stores the three parts at the path,
  after the same check of their row and column counts.
\<close>

definition merge_parquet ::
  "'op world \<Rightarrow> meta \<Rightarrow> ndarray \<Rightarrow> string list \<Rightarrow> path \<Rightarrow> error option \<times> 'op world" where
  "merge_parquet w m vals feats p =
     (let ds = \<lparr>metadata = m, value_matrix = vals, features = feats\<rparr>;
          w' = record_call (Merge_parquet p ds) w in
      if n_rows m = length (rows vals) \<and> length feats = ncols vals
      then (None, w'\<lparr>files := (files w')(p \<mapsto> Parquet ds)\<rparr>)
      else (Some DataShapeError, w'))"

text \<open>\<^verbatim>\<open>meta[column_norm]\<close>: the column of that name, or \<^verbatim>\<open>KeyError\<close>.\<close>

definition meta_getitem :: "meta \<Rightarrow> string \<Rightarrow> error + string list" where
  "meta_getitem m name =
     (case map_of (columns m) name of None \<Rightarrow> Inl (KeyError name) | Some c \<Rightarrow> Inr c)"

text \<open>\<^verbatim>\<open>column.isin(values_norm).values\<close>: one boolean per row.\<close>

definition isin :: "string list \<Rightarrow> string list \<Rightarrow> bool list" where
  "isin c values_norm = map (\<lambda>v. v \<in> set values_norm) c"

text \<open>
  \<^verbatim>\<open>vals[train_ix]\<close>: the rows at which the mask is true, in their order. numpy raises
  \<^verbatim>\<open>IndexError\<close> for a mask whose length is not the number of rows.
\<close>

definition mask_rows :: "ndarray \<Rightarrow> bool list \<Rightarrow> error + ndarray" where
  "mask_rows vals train_ix =
     (if length train_ix \<noteq> length (rows vals) then Inl IndexError
      else Inr (vals\<lparr>rows := map snd (filter fst (zip train_ix (rows vals)))\<rparr>))"

text \<open>\<^verbatim>\<open>a.astype(np.float32)\<close>: same shape, every element rounded, element type float32.\<close>

definition astype_float32 :: "'op library \<Rightarrow> ndarray \<Rightarrow> ndarray" where
  "astype_float32 lib a = a\<lparr>dtype := Float32, rows := map (map (float32 lib)) (rows a)\<rparr>"

text \<open>
  \<^verbatim>\<open>np.savez_compressed(spherer_path, spherer=spherer)\<close>: numpy appends \<^verbatim>\<open>.npz\<close> to a
  file name that does not end with it, and stores the fitted operator there.
\<close>

definition npz_path :: "path \<Rightarrow> path" where
  "npz_path p =
     (if 4 \<le> length p \<and> drop (length p - 4) p = ''.npz'' then p else p @ ''.npz'')"

definition savez_compressed :: "'op world \<Rightarrow> path \<Rightarrow> 'op \<Rightarrow> error option \<times> 'op world" where
  "savez_compressed w p spherer =
     (let w' = record_call (Savez_compressed p) w
      in (None, w'\<lparr>files := (files w')(npz_path p \<mapsto> Npz spherer)\<rparr>))"

text \<open>The message of the \<^verbatim>\<open>ValueError\<close>: \<^verbatim>\<open>mode should be "corr" or "cov"\<close>.\<close>

definition mode_message :: string where
  "mode_message =
     ''mode should be '' @ [CHR 0x22] @ ''corr'' @ [CHR 0x22] @ '' or ''
       @ [CHR 0x22] @ ''cov'' @ [CHR 0x22]"

section \<open>The sphering orchestrator\<close>

text \<open>
  \<^verbatim>\<open>sphering(dframe_path, mode, lambda_, column_norm, values_norm, sphered_path,
  spherer_path)\<close>, with \<open>lambda'\<close> for \<^verbatim>\<open>lambda_\<close>. The result is the exception that ended the run, if any, and the world
  as the run leaves it: what was written before an exception stays written.
\<close>

definition sphering ::
  "'op library \<Rightarrow> 'op world \<Rightarrow> path \<Rightarrow> string \<Rightarrow> real \<Rightarrow> string \<Rightarrow> string list \<Rightarrow> path \<Rightarrow> path
     \<Rightarrow> error option \<times> 'op world" where
  "sphering lib w dframe_path mode lambda' column_norm values_norm sphered_path spherer_path =
     (case (if mode = ''corr'' then Inr \<lparr>kind = ZCA_corr, regularization = lambda'\<rparr>
            else if mode = ''cov'' then Inr \<lparr>kind = ZCA, regularization = lambda'\<rparr>
            else Inl (ValueError mode_message)) of
        Inl e \<Rightarrow> (Some e, w)
      | Inr spherer \<Rightarrow>
          (case split_parquet w dframe_path of
             (Inl e, w1) \<Rightarrow> (Some e, w1)
           | (Inr (m, vals, feats), w1) \<Rightarrow>
               (case meta_getitem m column_norm of
                  Inl e \<Rightarrow> (Some e, w1)
                | Inr c \<Rightarrow>
                    (case mask_rows vals (isin c values_norm) of
                       Inl e \<Rightarrow> (Some e, w1)
                     | Inr training \<Rightarrow>
                         (let w2 = record_call (Fit spherer training) w1 in
                          case fit lib spherer training of
                            Inl e \<Rightarrow> (Some e, w2)
                          | Inr fitted \<Rightarrow>
                              (let w3 = record_call (Transform vals) w2 in
                               case transform lib fitted vals of
                                 Inl e \<Rightarrow> (Some e, w3)
                               | Inr out \<Rightarrow>
                                   (case merge_parquet w3 m (astype_float32 lib out) feats
                                           sphered_path of
                                      (Some e, w4) \<Rightarrow> (Some e, w4)
                                    | (None, w4) \<Rightarrow>
                                        savez_compressed w4 spherer_path fitted)))))))"

section \<open>The correction method registry\<close>

text \<open>
  An annotated dataset: the feature matrix \<^verbatim>\<open>X\<close>, the observation metadata \<^verbatim>\<open>obs\<close> and the
  named embeddings \<^verbatim>\<open>obsm\<close>.
\<close>

record anndata =
  X :: ndarray
  obs :: meta
  obsm :: "string \<rightharpoonup> ndarray"

text \<open>
  The values of the registry are \<^verbatim>\<open>functools.partial\<close> objects: a function of
  \<^verbatim>\<open>correct.py\<close> with its keyword arguments bound. The first argument of each constructor
  is the bound \<^verbatim>\<open>batch_key\<close>, the second one of the last the bound \<^verbatim>\<open>label_key\<close>.
\<close>

datatype partial =
    Partial_harmony string
  | Partial_mnn string
  | Partial_scanorama string
  | Partial_combat string
  | Partial_desc string
  | Partial_identity string
  | Partial_scvi string string

text \<open>\<^verbatim>\<open>get_method_map\<close>: the dictionary literal, entry by entry.\<close>

definition get_method_map :: "string \<Rightarrow> string \<Rightarrow> (string \<times> partial) list" where
  "get_method_map batch_key label_key =
     [(''harmony'', Partial_harmony batch_key),
      (''mnn'', Partial_mnn batch_key),
      (''scanorama'', Partial_scanorama batch_key),
      (''combat'', Partial_combat batch_key),
      (''desc'', Partial_desc batch_key),
      (''sphering'', Partial_identity batch_key),
      (''scvi'', Partial_scvi batch_key label_key)]"

text \<open>\<^verbatim>\<open>d[name]\<close> on a dictionary: the value, or \<^verbatim>\<open>KeyError\<close>.\<close>

definition dict_getitem :: "(string \<times> 'v) list \<Rightarrow> string \<Rightarrow> error + 'v" where
  "dict_getitem d name = (case map_of d name of None \<Rightarrow> Inl (KeyError name) | Some v \<Rightarrow> Inr v)"

definition dict_keys :: "(string \<times> 'v) list \<Rightarrow> string set" where
  "dict_keys d = set (map fst d)"

text \<open>\<^verbatim>\<open>identity\<close>: the embedding slot receives the feature matrix.\<close>

definition identity :: "anndata \<Rightarrow> string \<Rightarrow> string \<Rightarrow> anndata" where
  "identity adata batch_key corrected_embed =
     adata\<lparr>obsm := (obsm adata)(corrected_embed \<mapsto> X adata)\<rparr>"

text \<open>
  \<^verbatim>\<open>a.min()\<close> over all elements: numpy raises \<^verbatim>\<open>ValueError\<close> on an array without
  elements. \<^verbatim>\<open>a -= min_value\<close> subtracts from every element.
\<close>

definition array_min :: "ndarray \<Rightarrow> error + real" where
  "array_min a =
     (if concat (rows a) = []
      then Inl (ValueError ''zero-size array to reduction operation minimum which has no identity'')
      else Inr (Min (set (concat (rows a)))))"

definition subtract :: "ndarray \<Rightarrow> real \<Rightarrow> ndarray" where
  "subtract a c = a\<lparr>rows := map (map (\<lambda>x. x - c)) (rows a)\<rparr>"

text \<open>
  The calls into the \<^verbatim>\<open>scvi\<close> package are parameters: \<^verbatim>\<open>SCVI.setup_anndata\<close>, the
  constructor \<^verbatim>\<open>SCVI(adata, n_layers, n_latent)\<close>, \<^verbatim>\<open>view_anndata_setup\<close>, \<^verbatim>\<open>train\<close> and
  \<^verbatim>\<open>get_latent_representation\<close>, over a type \<open>'vae\<close> of models. The last field stands for
  the five units that hand the dataset to an algorithm outside this repository (harmony,
  mnn, scanorama, combat, desc).
\<close>

record 'vae external =
  setup_anndata :: "anndata \<Rightarrow> string \<Rightarrow> string \<Rightarrow> error + anndata"
  SCVI :: "anndata \<Rightarrow> nat \<Rightarrow> nat \<Rightarrow> error + 'vae"
  view_anndata_setup :: "'vae \<Rightarrow> anndata \<Rightarrow> error option"
  train :: "'vae \<Rightarrow> error + 'vae"
  get_latent_representation :: "'vae \<Rightarrow> error + ndarray"
  delegated :: "partial \<Rightarrow> anndata \<Rightarrow> string \<Rightarrow> error + anndata"

text \<open>
  \<^verbatim>\<open>scvi\<close>. \<^verbatim>\<open>adata.copy()\<close> is a new object with the same content, so the subtraction
  changes \<open>train_adata\<close> only; \<open>adata\<close> changes in the last line alone.
\<close>

definition scvi :: "'vae external \<Rightarrow> anndata \<Rightarrow> string \<Rightarrow> string \<Rightarrow> string \<Rightarrow> error + anndata" where
  "scvi ext adata batch_key corrected_embed label_key =
     (let n_latent = 30; train_adata = adata in
      case array_min (X train_adata) of
        Inl e \<Rightarrow> Inl e
      | Inr min_value \<Rightarrow>
          (let train_adata = train_adata\<lparr>X := subtract (X train_adata) min_value\<rparr> in
           case setup_anndata ext train_adata batch_key label_key of
             Inl e \<Rightarrow> Inl e
           | Inr train_adata \<Rightarrow>
               (case SCVI ext train_adata 2 n_latent of
                  Inl e \<Rightarrow> Inl e
                | Inr vae \<Rightarrow>
                    (case view_anndata_setup ext vae train_adata of
                       Some e \<Rightarrow> Inl e
                     | None \<Rightarrow>
                         (case train ext vae of
                            Inl e \<Rightarrow> Inl e
                          | Inr vae \<Rightarrow>
                              (case get_latent_representation ext vae of
                                 Inl e \<Rightarrow> Inl e
                               | Inr latent \<Rightarrow>
                                   Inr (adata\<lparr>obsm := (obsm adata)(corrected_embed \<mapsto> latent)\<rparr>)))))))"

text \<open>
  Calling a unit of the registry, \<^verbatim>\<open>unit(adata, corrected_embed=...)\<close>: the function runs
  with the bound keywords.
\<close>

fun call :: "'vae external \<Rightarrow> partial \<Rightarrow> anndata \<Rightarrow> string \<Rightarrow> error + anndata" where
  "call ext (Partial_identity batch_key) adata corrected_embed =
     Inr (identity adata batch_key corrected_embed)"
| "call ext (Partial_scvi batch_key label_key) adata corrected_embed =
     scvi ext adata batch_key corrected_embed label_key"
| "call ext unit adata corrected_embed = delegated ext unit adata corrected_embed"

section \<open>Example inputs\<close>

text \<open>
  A file system with five evaluation maps of one score each, a frame without the score
  column, and three datasets. The scores are binary fractions and each column has one cell,
  so that the mean computed in 64-bit floats is the cell itself: \<open>cell_mean\<close> is the mean of
  pandas on these columns. The two instances of pandas differ in the order they leave
  among equal values: the original order for the first, its reverse for the second.
\<close>

definition score_frame :: "real \<Rightarrow> frame" where
  "score_frame x = [(''mean_average_precision'', [Some x])]"

definition data_frame :: "real \<Rightarrow> frame" where
  "data_frame x = [(''feature_0'', [Some x])]"

definition example_fs :: pfs where
  "example_fs = map_of
     [(''a.map'', score_frame (1/4)), (''b.map'', score_frame (3/4)),
      (''c.map'', score_frame (1/2)), (''d.map'', score_frame (3/4)),
      (''e.map'', score_frame (3/4)), (''bad.map'', data_frame 0),
      (''a.parquet'', data_frame 1), (''b.parquet'', data_frame 2),
      (''c.parquet'', data_frame 3)]"

fun cell_mean :: "column \<Rightarrow> real option" where
  "cell_mean [Some x] = Some x"
| "cell_mean c = None"

definition stable_pandas :: pandas where
  "stable_pandas = \<lparr>mean = cell_mean, tie_rank = (\<lambda>vs i. 0)\<rparr>"

definition reversing_pandas :: pandas where
  "reversing_pandas = \<lparr>mean = cell_mean, tie_rank = (\<lambda>vs i. length vs - i)\<rparr>"

text \<open>
  A whitening library for the examples, over operators that are one real: the
  decomposition gives \<open>1 + regularization\<close> whatever the rows, transforming divides every
  element by the operator and returns 64-bit floats. With it, a dataset of two rows and
  two features.
\<close>

definition example_library :: "real library" where
  "example_library =
     \<lparr>refusal = (\<lambda>a. ''Found array with 0 sample(s)''),
      decompose = (\<lambda>s a. Inr (1 + regularization s)),
      transform = (\<lambda>c a. Inr (a\<lparr>dtype := Float64, rows := map (map (\<lambda>x. x / c)) (rows a)\<rparr>)),
      float32 = (\<lambda>x. x)\<rparr>"

definition example_dataset :: dataset where
  "example_dataset =
     \<lparr>metadata = \<lparr>n_rows = 2, columns = [(''Metadata_kind'', [''control'', ''treated''])]\<rparr>,
      value_matrix = \<lparr>dtype = Float64, ncols = 2, rows = [[1, 2], [3, 4]]\<rparr>,
      features = [''feature_0'', ''feature_1'']\<rparr>"

definition example_world :: "real world" where
  "example_world = \<lparr>files = [''in.parquet'' \<mapsto> Parquet example_dataset], trace = []\<rparr>"

text \<open>
  External algorithms for the examples: setting up refuses a key that is no column of the
  observations, a model is the matrix it was built on and its number of latent
  dimensions, and its latent representation repeats the sum of each row. With them, two
  annotated datasets; the second has a column for the batch and one for the label.
\<close>

definition example_external :: "(ndarray \<times> nat) external" where
  "example_external =
     \<lparr>setup_anndata =
        (\<lambda>a batch_key labels_key.
           if map_of (columns (obs a)) batch_key = None then Inl (KeyError batch_key)
           else if map_of (columns (obs a)) labels_key = None then Inl (KeyError labels_key)
           else Inr a),
      SCVI = (\<lambda>a n_layers n_latent. Inr (X a, n_latent)),
      view_anndata_setup = (\<lambda>v a. None),
      train = (\<lambda>v. Inr v),
      get_latent_representation =
        (\<lambda>v. Inr ((fst v)\<lparr>ncols := snd v, rows := map (\<lambda>r. replicate (snd v) (sum_list r)) (rows (fst v))\<rparr>)),
      delegated = (\<lambda>unit a corrected_embed. Inl (LibraryError ''not installed''))\<rparr>"

definition example_adata :: anndata where
  "example_adata =
     \<lparr>X = \<lparr>dtype = Float64, ncols = 2, rows = [[1, - 2], [3, 4]]\<rparr>,
      obs = \<lparr>n_rows = 2, columns = [(''Metadata_Batch'', [''b1'', ''b2''])]\<rparr>,
      obsm = Map.empty\<rparr>"

definition example_cells :: anndata where
  "example_cells =
     \<lparr>X = \<lparr>dtype = Float64, ncols = 2, rows = [[1, - 2], [3, 4], [0, 5], [2, 2]]\<rparr>,
      obs = \<lparr>n_rows = 4,
             columns = [(''Metadata_Batch'', [''b1'', ''b1'', ''b2'', ''b2'']),
                        (''Metadata_JCP2022'', [''c1'', ''c2'', ''c1'', ''c2''])]\<rparr>,
      obsm = Map.empty\<rparr>"

section \<open>Properties of the selector\<close>



lemma series_set_fresh: "k \<notin> fst ` set s \<Longrightarrow> series_set s k v = s @ [(k, v)]"
  by (induction s) auto

lemma score_loop_all_scored:
  "length xs = length prs \<Longrightarrow>
   \<forall>i<length prs. mean_map pd fs (fst (prs ! i)) = Inr (xs ! i) \<Longrightarrow>
   distinct (map fst acc @ map snd prs) \<Longrightarrow>
   score_loop pd fs prs acc = Inr (acc @ zip (map snd prs) xs)"
proof (induction prs arbitrary: xs acc)
  case Nil
  then show ?case by simp
next
  case (Cons pr prs)
  obtain m p where pr: "pr = (m, p)" by (cases pr)
  obtain x xs' where xs: "xs = x # xs'" using Cons.prems(1) by (cases xs) auto
  have hd: "mean_map pd fs m = Inr x" using Cons.prems(2) pr xs by auto
  have tl: "\<forall>i<length prs. mean_map pd fs (fst (prs ! i)) = Inr (xs' ! i)"
    using Cons.prems(2) xs by auto
  have fresh: "p \<notin> fst ` set acc" using Cons.prems(3) pr by auto
  have d: "distinct (map fst (acc @ [(p, x)]) @ map snd prs)"
    using Cons.prems(3) pr by auto
  have "score_loop pd fs prs (acc @ [(p, x)]) = Inr ((acc @ [(p, x)]) @ zip (map snd prs) xs')"
    using Cons.IH [OF _ tl d] Cons.prems(1) xs by simp
  then show ?case using hd fresh pr xs by (simp add: series_set_fresh)
qed

lemma sorted_le_last:
  fixes xs :: "'b::linorder list"
  shows "sorted xs \<Longrightarrow> x \<in> set xs \<Longrightarrow> x \<le> last xs"
  by (induction xs) auto

text \<open>The last entry of an ascending sort is an entry of the list of greatest key.\<close>

lemma last_sort_key_greatest:
  fixes f :: "'a \<Rightarrow> 'b::linorder"
  assumes "ys \<noteq> []"
  shows "last (sort_key f ys) \<in> set ys \<and> (\<forall>y \<in> set ys. f y \<le> f (last (sort_key f ys)))"
proof -
  let ?t = "sort_key f ys"
  have ne: "?t \<noteq> []" using assms by (metis length_sort length_0_conv)
  then have mem: "last ?t \<in> set ys" using last_in_set by fastforce
  have "\<forall>x \<in> set (map f ?t). x \<le> last (map f ?t)"
    using sorted_le_last [of "map f ?t"] by simp
  then have "\<forall>y \<in> set ys. f y \<le> f (last ?t)" using ne by (simp add: last_map)
  then show ?thesis using mem by simp
qed

text \<open>
  Of a series without NaN, \<^verbatim>\<open>sort_values().index[-1]\<close> is the label of an entry of
  greatest value, whatever the order among equal values.
\<close>

lemma index_last_sort_values:
  assumes ne: "s \<noteq> []" and some: "\<forall>e \<in> set s. snd e \<noteq> None"
  shows "\<exists>j<length s. index_last (sort_values pd s) = Inr (fst (s ! j))
           \<and> (\<forall>i<length s. the (snd (s ! i)) \<le> the (snd (s ! j)))"
proof -
  let ?vs = "map (\<lambda>e. the (snd e)) s"
  let ?ranked = "sort_key (\<lambda>ie. tie_rank pd ?vs (fst ie)) (enumerate 0 s)"
  let ?f = "\<lambda>ie::nat \<times> path \<times> real option. the (snd (snd ie))"
  let ?t = "sort_key ?f ?ranked"
  have present: "filter (\<lambda>e. \<not> Option.is_none (snd e)) s = s"
    using some by (simp add: Option.is_none_def)
  have missing: "filter (\<lambda>e. Option.is_none (snd e)) s = []"
    using some by (simp add: Option.is_none_def filter_empty_conv)
  have sv: "sort_values pd s = map snd ?t"
    by (simp add: sort_values_def Let_def present missing)
  have rne: "?ranked \<noteq> []" using ne by (metis length_sort length_enumerate length_0_conv)
  have rset: "set ?ranked = set (enumerate 0 s)" by simp
  from last_sort_key_greatest [OF rne, of ?f]
  have mem: "last ?t \<in> set (enumerate 0 s)"
    and ge: "\<forall>y \<in> set (enumerate 0 s). ?f y \<le> ?f (last ?t)"
    unfolding rset by blast+
  obtain j e where je: "last ?t = (j, e)" by (cases "last ?t")
  have j: "j < length s" "s ! j = e" using mem je by (auto simp: in_set_enumerate_eq)
  have tne: "?t \<noteq> []" using rne by (metis length_sort length_0_conv)
  have "last (map snd ?t) = e" using tne je by (simp add: last_map)
  then have il: "index_last (sort_values pd s) = Inr (fst (s ! j))"
    using tne j(2) by (simp add: sv index_last_def)
  have "\<forall>i<length s. the (snd (s ! i)) \<le> the (snd (s ! j))"
  proof (intro allI impI)
    fix i assume i: "i < length s"
    then have "(i, s ! i) \<in> set (enumerate 0 s)" by (simp add: in_set_enumerate_eq)
    then have "?f (i, s ! i) \<le> ?f (last ?t)" using ge by blast
    then show "the (snd (s ! i)) \<le> the (snd (s ! j))" using je j(2) by simp
  qed
  then show ?thesis using j(1) il by blast
qed

text \<open>
  The selector on pairs that all have a mean and whose dataset paths are pairwise
  distinct, the lists being of any lengths.
\<close>

lemma select_best_maximum:
  assumes n: "n = min (length map_files) (length parquet_files)" "0 < n"
    and xs: "length xs = n" "\<forall>i<n. mean_map pd fs (map_files ! i) = Inr (Some (xs ! i))"
    and d: "distinct (take n parquet_files)"
  shows "\<exists>j<n. select_best pd fs map_files parquet_files best_path
                  = copy fs (parquet_files ! j) best_path
           \<and> (\<forall>i<n. xs ! i \<le> xs ! j)"
proof -
  let ?prs = "zip map_files parquet_files"
  let ?s = "zip (map snd ?prs) (map Some xs)"
  have len: "length ?prs = n" using n by simp
  have snd_prs: "map snd ?prs = take n parquet_files" using n by (simp add: map_snd_zip_take)
  have "score_loop pd fs ?prs [] = Inr ([] @ ?s)"
  proof (rule score_loop_all_scored)
    show "length (map Some xs) = length ?prs" using xs len by simp
    show "\<forall>i<length ?prs. mean_map pd fs (fst (?prs ! i)) = Inr (map Some xs ! i)"
      using xs n by simp
    show "distinct (map fst [] @ map snd ?prs)" using d snd_prs by simp
  qed
  then have loop: "score_loop pd fs ?prs [] = Inr ?s" by simp
  have ls: "length ?s = n" using len xs by simp
  then have ne: "?s \<noteq> []" using n(2) by (metis length_0_conv less_numeral_extra(3))
  have nth_s: "\<And>i. i < n \<Longrightarrow> ?s ! i = (parquet_files ! i, Some (xs ! i))"
    using len xs n by simp
  have some: "\<forall>e \<in> set ?s. snd e \<noteq> None" by (auto simp: set_zip)
  from index_last_sort_values [OF ne some, of pd] obtain j where
    j: "j < length ?s" "index_last (sort_values pd ?s) = Inr (fst (?s ! j))"
       "\<forall>i<length ?s. the (snd (?s ! i)) \<le> the (snd (?s ! j))" by blast
  have jn: "j < n" using j(1) unfolding ls .
  have greatest: "\<forall>i<n. the (snd (?s ! i)) \<le> the (snd (?s ! j))" using j(3) unfolding ls .
  have le: "\<forall>i<n. xs ! i \<le> xs ! j"
  proof (intro allI impI)
    fix i assume i: "i < n"
    then have "the (snd (?s ! i)) \<le> the (snd (?s ! j))" using greatest by blast
    then show "xs ! i \<le> xs ! j" using nth_s [OF i] nth_s [OF jn] by simp
  qed
  have "index_last (sort_values pd ?s) = Inr (parquet_files ! j)"
    using j(2) nth_s [OF jn] by simp
  then have "select_best pd fs map_files parquet_files best_path
              = copy fs (parquet_files ! j) best_path"
    using loop by (simp add: select_best_def)
  then show ?thesis using jn le by blast
qed

lemma mean_map_example:
  "mean_map stable_pandas example_fs ''a.map'' = Inr (Some (1/4))"
  "mean_map stable_pandas example_fs ''b.map'' = Inr (Some (3/4))"
  "mean_map stable_pandas example_fs ''c.map'' = Inr (Some (1/2))"
  "mean_map stable_pandas example_fs ''d.map'' = Inr (Some (3/4))"
  "mean_map stable_pandas example_fs ''e.map'' = Inr (Some (3/4))"
  "mean_map stable_pandas example_fs ''bad.map'' = Inl (KeyError ''mean_average_precision'')"
  "mean_map stable_pandas example_fs ''missing.map'' = Inl (FileNotFoundError ''missing.map'')"
  "mean_map reversing_pandas example_fs ''d.map'' = Inr (Some (3/4))"
  "mean_map reversing_pandas example_fs ''e.map'' = Inr (Some (3/4))"
  by (simp_all add: mean_map_def read_parquet_def getitem_def example_fs_def
      score_frame_def data_frame_def stable_pandas_def reversing_pandas_def)

lemma tie_rank_example:
  "tie_rank stable_pandas vs i = 0"
  "tie_rank reversing_pandas vs i = length vs - i"
  by (simp_all add: stable_pandas_def reversing_pandas_def)

text \<open>
  C2, amended. For parallel lists of at least one pair, whose dataset paths are pairwise
  distinct and whose map files each have a score column with a mean, \<open>xs ! i\<close> for the
  \<open>i\<close>-th as pandas computes it: the selector does what copying the \<open>j\<close>-th dataset to the
  best path does, for an index \<open>j\<close> whose mean is maximal. This holds for every rounding
  of the mean and every order that the sort leaves among equal values; which of several
  datasets of maximal mean is copied depends on that order.
\<close>

theorem select_best_picks_maximum:
  assumes "length map_files = length parquet_files" "parquet_files \<noteq> []"
    and "length xs = length parquet_files"
    and "\<forall>i<length parquet_files. mean_map pd fs (map_files ! i) = Inr (Some (xs ! i))"
    and "distinct parquet_files"
  shows "\<exists>j<length parquet_files.
           select_best pd fs map_files parquet_files best_path
             = copy fs (parquet_files ! j) best_path
         \<and> (\<forall>i<length parquet_files. xs ! i \<le> xs ! j)"
  using assms
    select_best_maximum [of "length parquet_files" map_files parquet_files xs pd fs best_path]
  by simp

text \<open>
  The scores of section 8 of the specification, as binary fractions: of three maps of
  means 0.25, 0.75 and 0.5 the second dataset is copied.
\<close>

theorem select_best_picks_maximum_witness:
  "select_best stable_pandas example_fs [''a.map'', ''b.map'', ''c.map'']
     [''a.parquet'', ''b.parquet'', ''c.parquet''] ''best.parquet''
     = Inr (example_fs(''best.parquet'' \<mapsto> data_frame 2))"
proof -
  let ?xs = "[1/4, 3/4, 1/2 :: real]"
  let ?ps = "[''a.parquet'', ''b.parquet'', ''c.parquet'']"
  have "\<exists>j<length ?ps.
          select_best stable_pandas example_fs [''a.map'', ''b.map'', ''c.map''] ?ps
              ''best.parquet''
            = copy example_fs (?ps ! j) ''best.parquet''
        \<and> (\<forall>i<length ?ps. ?xs ! i \<le> ?xs ! j)"
    by (rule select_best_picks_maximum)
       (simp_all add: mean_map_example less_Suc_eq numeral_3_eq_3)
  then obtain j where j: "j < length ?ps"
    "select_best stable_pandas example_fs [''a.map'', ''b.map'', ''c.map''] ?ps ''best.parquet''
       = copy example_fs (?ps ! j) ''best.parquet''"
    "\<forall>i<length ?ps. ?xs ! i \<le> ?xs ! j" by blast
  from j(3) have "1 < length ?ps \<longrightarrow> ?xs ! 1 \<le> ?xs ! j" by blast
  then have "?xs ! 1 \<le> ?xs ! j" by simp
  then have "j = 1" using j(1) by (auto simp: less_Suc_eq numeral_3_eq_3)
  then show ?thesis using j(2) by (simp add: copy_def example_fs_def)
qed

text \<open>
  C2 as stated fails in two ways. When a dataset path is paired twice, here with the maps
  of means 0.75 and 0.25, the later score overwrites the earlier one and the dataset of
  mean 0.5 is copied. And of two datasets tied at 0.75 the later is copied under one
  order among equal values and the earlier under another, both being ascending: the sort
  that the code asks for does not promise either.
\<close>

theorem select_best_counterexample:
  "select_best stable_pandas example_fs [''b.map'', ''c.map'', ''a.map'']
       [''a.parquet'', ''b.parquet'', ''a.parquet''] ''best.parquet''
     = Inr (example_fs(''best.parquet'' \<mapsto> data_frame 2))
   \<and> mean_map stable_pandas example_fs ''b.map'' = Inr (Some (3/4))
   \<and> mean_map stable_pandas example_fs ''c.map'' = Inr (Some (1/2))
   \<and> select_best stable_pandas example_fs [''d.map'', ''e.map'']
       [''a.parquet'', ''b.parquet''] ''best.parquet''
     = Inr (example_fs(''best.parquet'' \<mapsto> data_frame 2))
   \<and> select_best reversing_pandas example_fs [''d.map'', ''e.map'']
       [''a.parquet'', ''b.parquet''] ''best.parquet''
     = Inr (example_fs(''best.parquet'' \<mapsto> data_frame 1))
   \<and> example_fs ''a.parquet'' = Some (data_frame 1)
   \<and> example_fs ''b.parquet'' = Some (data_frame 2)
   \<and> data_frame 1 \<noteq> data_frame 2"
  by (simp add: mean_map_example select_best_def sort_values_def index_last_def copy_def
      tie_rank_example Let_def)
     (simp add: example_fs_def data_frame_def)

lemma mean_map_error:
  "mean_map pd fs m = Inl e \<Longrightarrow>
   e = KeyError ''mean_average_precision'' \<or> e = FileNotFoundError m"
  by (auto simp: mean_map_def read_parquet_def getitem_def split: option.splits)

lemma score_loop_fails:
  "(m, p) \<in> set prs \<Longrightarrow> mean_map pd fs m = Inl e \<Longrightarrow>
   \<exists>e' m'. score_loop pd fs prs acc = Inl e' \<and> m' \<in> fst ` set prs \<and> mean_map pd fs m' = Inl e'"
proof (induction prs arbitrary: acc)
  case Nil
  then show ?case by simp
next
  case (Cons pr prs)
  obtain m0 p0 where pr: "pr = (m0, p0)" by (cases pr)
  show ?case
  proof (cases "mean_map pd fs m0")
    case (Inl e0)
    then show ?thesis using pr by auto
  next
    case (Inr x)
    then have "(m, p) \<in> set prs" using Cons.prems pr by auto
    from Cons.IH [OF this Cons.prems(2), of "series_set acc p0 x"] show ?thesis
      using Inr pr by auto
  qed
qed

lemma lacking_column:
  "fs m = Some fr \<Longrightarrow> map_of fr ''mean_average_precision'' = None \<Longrightarrow>
   mean_map pd fs m = Inl (KeyError ''mean_average_precision'')"
  by (simp add: mean_map_def read_parquet_def getitem_def)

text \<open>
  C8. On parallel lists the selector fails whenever some map file lacks the score column:
  with the \<^verbatim>\<open>KeyError\<close> of that column, or with the \<^verbatim>\<open>FileNotFoundError\<close> of a map file
  that is missing. It fails with \<^verbatim>\<open>IndexError\<close> when the lists are empty. In both cases
  nothing is copied: the result is the exception, the copy being the last step.
\<close>

theorem select_best_fails:
  assumes "length map_files = length parquet_files"
  shows "(m \<in> set map_files \<and> fs m = Some fr \<and> map_of fr ''mean_average_precision'' = None
          \<longrightarrow> (\<exists>e. select_best pd fs map_files parquet_files best_path = Inl e
                   \<and> (e = KeyError ''mean_average_precision''
                        \<or> (\<exists>m' \<in> set map_files. e = FileNotFoundError m'))))
       \<and> (map_files = []
          \<longrightarrow> select_best pd fs map_files parquet_files best_path = Inl IndexError)"
proof (intro conjI impI)
  assume a: "m \<in> set map_files \<and> fs m = Some fr \<and> map_of fr ''mean_average_precision'' = None"
  let ?prs = "zip map_files parquet_files"
  from a obtain i where i: "i < length map_files" "map_files ! i = m"
    by (auto simp: in_set_conv_nth)
  have "?prs ! i = (m, parquet_files ! i)" using i assms by simp
  moreover have "i < length ?prs" using i assms by simp
  ultimately have mem: "(m, parquet_files ! i) \<in> set ?prs" by (metis nth_mem)
  have "mean_map pd fs m = Inl (KeyError ''mean_average_precision'')"
    using a by (simp add: lacking_column)
  from score_loop_fails [OF mem this, of "[]"] obtain e' m' where
    e': "score_loop pd fs ?prs [] = Inl e'" "m' \<in> fst ` set ?prs" "mean_map pd fs m' = Inl e'"
    by blast
  have m': "m' \<in> set map_files" using e'(2) by (auto dest: set_zip_leftD)
  have "e' = KeyError ''mean_average_precision'' \<or> e' = FileNotFoundError m'"
    using e'(3) by (rule mean_map_error)
  then show "\<exists>e. select_best pd fs map_files parquet_files best_path = Inl e
             \<and> (e = KeyError ''mean_average_precision''
                  \<or> (\<exists>m' \<in> set map_files. e = FileNotFoundError m'))"
    using e'(1) m' by (auto simp: select_best_def)
next
  assume "map_files = []"
  then have z: "zip map_files parquet_files = []" by simp
  show "select_best pd fs map_files parquet_files best_path = Inl IndexError"
    unfolding select_best_def z by (simp add: sort_values_def index_last_def)
qed

text \<open>
  Of three maps the second lacks the column: the selector raises its \<^verbatim>\<open>KeyError\<close>. On
  empty lists it raises \<^verbatim>\<open>IndexError\<close>.
\<close>

theorem select_best_fails_witness:
  "select_best stable_pandas example_fs [''b.map'', ''bad.map'', ''c.map'']
     [''a.parquet'', ''b.parquet'', ''c.parquet''] ''best.parquet''
     = Inl (KeyError ''mean_average_precision'')
   \<and> select_best stable_pandas example_fs [] [] ''best.parquet'' = Inl IndexError"
proof -
  have bad: "example_fs ''bad.map'' = Some (data_frame 0)"
    "map_of (data_frame 0) ''mean_average_precision'' = None"
    by (simp_all add: example_fs_def data_frame_def)
  have "\<exists>e. select_best stable_pandas example_fs [''b.map'', ''bad.map'', ''c.map'']
              [''a.parquet'', ''b.parquet'', ''c.parquet''] ''best.parquet'' = Inl e
          \<and> (e = KeyError ''mean_average_precision''
               \<or> (\<exists>m' \<in> set [''b.map'', ''bad.map'', ''c.map'']. e = FileNotFoundError m'))"
    using select_best_fails [of "[''b.map'', ''bad.map'', ''c.map'']"
        "[''a.parquet'', ''b.parquet'', ''c.parquet'']" "''bad.map''" example_fs "data_frame 0"
        stable_pandas "''best.parquet''"] bad by simp
  moreover have "select_best stable_pandas example_fs [''b.map'', ''bad.map'', ''c.map'']
              [''a.parquet'', ''b.parquet'', ''c.parquet''] ''best.parquet''
           = Inl (KeyError ''mean_average_precision'')"
    by (simp add: select_best_def mean_map_example)
  moreover have "select_best stable_pandas example_fs [] [] ''best.parquet'' = Inl IndexError"
    using select_best_fails [of "[]" "[]" "[]" example_fs "[]" stable_pandas "''best.parquet''"]
    by simp
  ultimately show ?thesis by simp
qed



section \<open>Properties of the sphering orchestrator\<close>

text \<open>
  C3. With a mode that is neither \<^verbatim>\<open>corr\<close> nor \<^verbatim>\<open>cov\<close> the orchestrator raises the
  \<^verbatim>\<open>ValueError\<close> of the invalid mode and leaves the world as it found it: no call is
  recorded (no dataset loaded, no operator fitted) and no file is written.
\<close>

theorem sphering_invalid_mode:
  "mode \<noteq> ''corr'' \<Longrightarrow> mode \<noteq> ''cov'' \<Longrightarrow>
   sphering lib w dframe_path mode lambda' column_norm values_norm sphered_path spherer_path
     = (Some (ValueError mode_message), w)"
  by (simp add: sphering_def)

theorem sphering_invalid_mode_witness:
  "sphering example_library example_world ''in.parquet'' ''invalid'' (1/10) ''Metadata_kind''
     [''control''] ''out.parquet'' ''zca.npz''
     = (Some (ValueError mode_message), example_world)"
  using sphering_invalid_mode [of "''invalid''" example_library example_world "''in.parquet''"
      "1/10" "''Metadata_kind''" "[''control'']" "''out.parquet''" "''zca.npz''"]
  by simp

text \<open>
  What a run that ends without exception has done, step by step.
\<close>

lemma sphering_success:
  assumes "sphering lib w dframe_path mode lambda' column_norm values_norm sphered_path
             spherer_path = (None, w')"
  shows "\<exists>ds c training fitted out.
           (mode = ''corr'' \<or> mode = ''cov'')
         \<and> files w dframe_path = Some (Parquet ds)
         \<and> n_rows (metadata ds) = length (rows (value_matrix ds))
         \<and> length (features ds) = ncols (value_matrix ds)
         \<and> meta_getitem (metadata ds) column_norm = Inr c
         \<and> mask_rows (value_matrix ds) (isin c values_norm) = Inr training
         \<and> fit lib \<lparr>kind = (if mode = ''corr'' then ZCA_corr else ZCA), regularization = lambda'\<rparr>
               training = Inr fitted
         \<and> transform lib fitted (value_matrix ds) = Inr out
         \<and> n_rows (metadata ds) = length (rows (astype_float32 lib out))
         \<and> length (features ds) = ncols (astype_float32 lib out)
         \<and> w' = \<lparr>files = (files w)
                      (sphered_path \<mapsto> Parquet \<lparr>metadata = metadata ds,
                          value_matrix = astype_float32 lib out, features = features ds\<rparr>,
                       npz_path spherer_path \<mapsto> Npz fitted),
                  trace = trace w @
                    [Split_parquet dframe_path,
                     Fit \<lparr>kind = (if mode = ''corr'' then ZCA_corr else ZCA),
                          regularization = lambda'\<rparr> training,
                     Transform (value_matrix ds),
                     Merge_parquet sphered_path \<lparr>metadata = metadata ds,
                          value_matrix = astype_float32 lib out, features = features ds\<rparr>,
                     Savez_compressed spherer_path]\<rparr>"
  using assms
  by (auto simp: sphering_def split_parquet_def merge_parquet_def savez_compressed_def
      record_call_def Let_def
      split: if_splits sum.splits option.splits stored.splits prod.splits)

text \<open>
  A run on the example dataset, trained on its first row.
\<close>

lemma example_run:
  "sphering example_library example_world ''in.parquet'' ''cov'' (1/10) ''Metadata_kind''
     [''control''] ''out.parquet'' ''zca''
   = (None,
      \<lparr>files = [''in.parquet'' \<mapsto> Parquet example_dataset,
                ''out.parquet'' \<mapsto> Parquet (example_dataset\<lparr>value_matrix :=
                    \<lparr>dtype = Float32, ncols = 2, rows = [[10/11, 20/11], [30/11, 40/11]]\<rparr>\<rparr>),
                ''zca.npz'' \<mapsto> Npz (11/10)],
       trace = [Split_parquet ''in.parquet'',
                Fit \<lparr>kind = ZCA, regularization = 1/10\<rparr>
                    \<lparr>dtype = Float64, ncols = 2, rows = [[1, 2]]\<rparr>,
                Transform \<lparr>dtype = Float64, ncols = 2, rows = [[1, 2], [3, 4]]\<rparr>,
                Merge_parquet ''out.parquet'' (example_dataset\<lparr>value_matrix :=
                    \<lparr>dtype = Float32, ncols = 2, rows = [[10/11, 20/11], [30/11, 40/11]]\<rparr>\<rparr>),
                Savez_compressed ''zca'']\<rparr>)"
  by (simp add: sphering_def split_parquet_def merge_parquet_def savez_compressed_def
      record_call_def meta_getitem_def isin_def mask_rows_def astype_float32_def npz_path_def
      fit_def Let_def example_library_def example_world_def example_dataset_def)

text \<open>
  C5. After a run without exception, the dataset handed to the store for the corrected
  path has the metadata and the feature names of the input dataset, its values are the
  fitted operator applied to the whole input matrix (the operator fitted on the masked rows
  only) and cast to float32, and they have the shape of the input matrix. The file at the
  corrected path holds that dataset, unless the operator was saved under the same path.
  The equality of the shapes rests on the check of the row and column counts by the store.
\<close>

theorem sphering_output:
  assumes "sphering lib w dframe_path mode lambda' column_norm values_norm sphered_path
             spherer_path = (None, w')"
  shows "\<exists>ds c training fitted out.
           files w dframe_path = Some (Parquet ds)
         \<and> meta_getitem (metadata ds) column_norm = Inr c
         \<and> mask_rows (value_matrix ds) (isin c values_norm) = Inr training
         \<and> fit lib \<lparr>kind = (if mode = ''corr'' then ZCA_corr else ZCA), regularization = lambda'\<rparr>
               training = Inr fitted
         \<and> transform lib fitted (value_matrix ds) = Inr out
         \<and> Merge_parquet sphered_path
              \<lparr>metadata = metadata ds, value_matrix = astype_float32 lib out,
               features = features ds\<rparr> \<in> set (trace w')
         \<and> shape (astype_float32 lib out) = shape (value_matrix ds)
         \<and> (npz_path spherer_path \<noteq> sphered_path \<longrightarrow>
              files w' sphered_path
                = Some (Parquet \<lparr>metadata = metadata ds, value_matrix = astype_float32 lib out,
                                  features = features ds\<rparr>))"
proof -
  from sphering_success [OF assms] obtain ds c training fitted out where
    h: "files w dframe_path = Some (Parquet ds)"
       "n_rows (metadata ds) = length (rows (value_matrix ds))"
       "length (features ds) = ncols (value_matrix ds)"
       "meta_getitem (metadata ds) column_norm = Inr c"
       "mask_rows (value_matrix ds) (isin c values_norm) = Inr training"
       "fit lib \<lparr>kind = (if mode = ''corr'' then ZCA_corr else ZCA), regularization = lambda'\<rparr>
               training = Inr fitted"
       "transform lib fitted (value_matrix ds) = Inr out"
       "n_rows (metadata ds) = length (rows (astype_float32 lib out))"
       "length (features ds) = ncols (astype_float32 lib out)"
    and w': "w' = \<lparr>files = (files w)
                      (sphered_path \<mapsto> Parquet \<lparr>metadata = metadata ds,
                          value_matrix = astype_float32 lib out, features = features ds\<rparr>,
                       npz_path spherer_path \<mapsto> Npz fitted),
                  trace = trace w @
                    [Split_parquet dframe_path,
                     Fit \<lparr>kind = (if mode = ''corr'' then ZCA_corr else ZCA),
                          regularization = lambda'\<rparr> training,
                     Transform (value_matrix ds),
                     Merge_parquet sphered_path \<lparr>metadata = metadata ds,
                          value_matrix = astype_float32 lib out, features = features ds\<rparr>,
                     Savez_compressed spherer_path]\<rparr>"
    by blast
  have sh: "shape (astype_float32 lib out) = shape (value_matrix ds)"
    using h(2,3,8,9) by (simp add: shape_def)
  have tr: "Merge_parquet sphered_path
              \<lparr>metadata = metadata ds, value_matrix = astype_float32 lib out,
               features = features ds\<rparr> \<in> set (trace w')"
    by (simp add: w')
  have fl: "npz_path spherer_path \<noteq> sphered_path \<longrightarrow>
              files w' sphered_path
                = Some (Parquet \<lparr>metadata = metadata ds, value_matrix = astype_float32 lib out,
                                  features = features ds\<rparr>)"
    by (simp add: w')
  show ?thesis using h(1,4,5,6,7) sh tr fl by blast
qed

theorem sphering_output_witness:
  "\<exists>ds c training fitted out.
     files example_world ''in.parquet'' = Some (Parquet ds)
   \<and> meta_getitem (metadata ds) ''Metadata_kind'' = Inr c
   \<and> mask_rows (value_matrix ds) (isin c [''control'']) = Inr training
   \<and> fit example_library \<lparr>kind = ZCA, regularization = 1/10\<rparr> training = Inr fitted
   \<and> transform example_library fitted (value_matrix ds) = Inr out
   \<and> shape (astype_float32 example_library out) = shape (value_matrix ds)
   \<and> files (snd (sphering example_library example_world ''in.parquet'' ''cov'' (1/10)
          ''Metadata_kind'' [''control''] ''out.parquet'' ''zca'')) ''out.parquet''
       = Some (Parquet \<lparr>metadata = metadata ds,
            value_matrix = astype_float32 example_library out, features = features ds\<rparr>)"
proof -
  have "npz_path ''zca'' \<noteq> ''out.parquet''" by (simp add: npz_path_def)
  moreover have k: "(if ''cov'' = ''corr'' then ZCA_corr else ZCA) = ZCA" by simp
  ultimately show ?thesis
    using sphering_output [OF example_run] unfolding k
    by (simp only: snd_conv example_run) blast
qed

text \<open>
  C6. After a run without exception, the values written are what the transform step
  produced: the output \<open>out\<close> of the library's \<open>transform\<close> on the input matrix, every element
  rounded to a 32-bit float, with the element type float32, whatever the element type of
  the input matrix and of \<open>out\<close>.
\<close>

theorem sphering_float32:
  assumes "sphering lib w dframe_path mode lambda' column_norm values_norm sphered_path
             spherer_path = (None, w')"
  shows "\<exists>ds c training fitted out.
           files w dframe_path = Some (Parquet ds)
         \<and> meta_getitem (metadata ds) column_norm = Inr c
         \<and> mask_rows (value_matrix ds) (isin c values_norm) = Inr training
         \<and> fit lib \<lparr>kind = (if mode = ''corr'' then ZCA_corr else ZCA), regularization = lambda'\<rparr>
               training = Inr fitted
         \<and> transform lib fitted (value_matrix ds) = Inr out
         \<and> dtype (astype_float32 lib out) = Float32
         \<and> rows (astype_float32 lib out) = map (map (float32 lib)) (rows out)
         \<and> Merge_parquet sphered_path
              \<lparr>metadata = metadata ds, value_matrix = astype_float32 lib out,
               features = features ds\<rparr> \<in> set (trace w')
         \<and> (npz_path spherer_path \<noteq> sphered_path \<longrightarrow>
              files w' sphered_path
                = Some (Parquet \<lparr>metadata = metadata ds, value_matrix = astype_float32 lib out,
                                  features = features ds\<rparr>))"
proof -
  from sphering_success [OF assms] obtain ds c training fitted out where
    h: "files w dframe_path = Some (Parquet ds)"
       "meta_getitem (metadata ds) column_norm = Inr c"
       "mask_rows (value_matrix ds) (isin c values_norm) = Inr training"
       "fit lib \<lparr>kind = (if mode = ''corr'' then ZCA_corr else ZCA), regularization = lambda'\<rparr>
               training = Inr fitted"
       "transform lib fitted (value_matrix ds) = Inr out"
    and w': "w' = \<lparr>files = (files w)
                      (sphered_path \<mapsto> Parquet \<lparr>metadata = metadata ds,
                          value_matrix = astype_float32 lib out, features = features ds\<rparr>,
                       npz_path spherer_path \<mapsto> Npz fitted),
                  trace = trace w @
                    [Split_parquet dframe_path,
                     Fit \<lparr>kind = (if mode = ''corr'' then ZCA_corr else ZCA),
                          regularization = lambda'\<rparr> training,
                     Transform (value_matrix ds),
                     Merge_parquet sphered_path \<lparr>metadata = metadata ds,
                          value_matrix = astype_float32 lib out, features = features ds\<rparr>,
                     Savez_compressed spherer_path]\<rparr>"
    by blast
  have dt: "dtype (astype_float32 lib out) = Float32"
    and rw: "rows (astype_float32 lib out) = map (map (float32 lib)) (rows out)"
    by (simp_all add: astype_float32_def)
  have tr: "Merge_parquet sphered_path
              \<lparr>metadata = metadata ds, value_matrix = astype_float32 lib out,
               features = features ds\<rparr> \<in> set (trace w')"
    by (simp add: w')
  have fl: "npz_path spherer_path \<noteq> sphered_path \<longrightarrow>
              files w' sphered_path
                = Some (Parquet \<lparr>metadata = metadata ds, value_matrix = astype_float32 lib out,
                                  features = features ds\<rparr>)"
    by (simp add: w')
  show ?thesis using h dt rw tr fl by blast
qed

text \<open>
  The run on the example dataset: the input matrix and the output of \<open>transform\<close> are of
  64-bit floats, the matrix written is that output as 32-bit floats.
\<close>

theorem sphering_float32_witness:
  "dtype (value_matrix example_dataset) = Float64
   \<and> transform example_library (11/10) (value_matrix example_dataset)
       = Inr \<lparr>dtype = Float64, ncols = 2, rows = [[10/11, 20/11], [30/11, 40/11]]\<rparr>
   \<and> fst (sphering example_library example_world ''in.parquet'' ''cov'' (1/10)
          ''Metadata_kind'' [''control''] ''out.parquet'' ''zca'') = None
   \<and> Merge_parquet ''out.parquet''
        (example_dataset\<lparr>value_matrix :=
           \<lparr>dtype = Float32, ncols = 2, rows = [[10/11, 20/11], [30/11, 40/11]]\<rparr>\<rparr>)
       \<in> set (trace (snd (sphering example_library example_world ''in.parquet'' ''cov'' (1/10)
          ''Metadata_kind'' [''control''] ''out.parquet'' ''zca'')))
   \<and> files (snd (sphering example_library example_world ''in.parquet''
          ''cov'' (1/10) ''Metadata_kind'' [''control''] ''out.parquet'' ''zca'')) ''out.parquet''
       = Some (Parquet (example_dataset\<lparr>value_matrix :=
           \<lparr>dtype = Float32, ncols = 2, rows = [[10/11, 20/11], [30/11, 40/11]]\<rparr>\<rparr>))"
proof -
  let ?run = "sphering example_library example_world ''in.parquet'' ''cov'' (1/10)
          ''Metadata_kind'' [''control''] ''out.parquet'' ''zca''"
  have np: "npz_path ''zca'' \<noteq> ''out.parquet''" by (simp add: npz_path_def)
  have k: "(if ''cov'' = ''corr'' then ZCA_corr else ZCA) = ZCA" by simp
  from sphering_float32 [OF example_run] obtain ds c training fitted out where
    h: "files example_world ''in.parquet'' = Some (Parquet ds)"
       "meta_getitem (metadata ds) ''Metadata_kind'' = Inr c"
       "mask_rows (value_matrix ds) (isin c [''control'']) = Inr training"
       "fit example_library \<lparr>kind = ZCA, regularization = 1/10\<rparr> training = Inr fitted"
       "transform example_library fitted (value_matrix ds) = Inr out"
       "Merge_parquet ''out.parquet''
              \<lparr>metadata = metadata ds, value_matrix = astype_float32 example_library out,
               features = features ds\<rparr> \<in> set (trace (snd ?run))"
       "npz_path ''zca'' \<noteq> ''out.parquet'' \<longrightarrow>
          files (snd ?run) ''out.parquet''
            = Some (Parquet \<lparr>metadata = metadata ds,
                 value_matrix = astype_float32 example_library out, features = features ds\<rparr>)"
    unfolding k by (simp only: snd_conv example_run) blast
  have ds: "ds = example_dataset" using h(1) by (simp add: example_world_def)
  have c: "c = [''control'', ''treated'']"
    using h(2) by (simp add: ds example_dataset_def meta_getitem_def)
  have training: "training = \<lparr>dtype = Float64, ncols = 2, rows = [[1, 2]]\<rparr>"
    using h(3) by (simp add: ds c example_dataset_def mask_rows_def isin_def)
  have fitted: "fitted = 11/10"
    using h(4) by (simp add: training fit_def example_library_def)
  have out: "out = \<lparr>dtype = Float64, ncols = 2, rows = [[10/11, 20/11], [30/11, 40/11]]\<rparr>"
    using h(5) by (simp add: ds fitted example_dataset_def example_library_def)
  have cast: "astype_float32 example_library out
      = \<lparr>dtype = Float32, ncols = 2, rows = [[10/11, 20/11], [30/11, 40/11]]\<rparr>"
    by (simp add: out astype_float32_def example_library_def)
  have "dtype (value_matrix example_dataset) = Float64" by (simp add: example_dataset_def)
  moreover have "transform example_library (11/10) (value_matrix example_dataset)
       = Inr \<lparr>dtype = Float64, ncols = 2, rows = [[10/11, 20/11], [30/11, 40/11]]\<rparr>"
    using h(5) by (simp add: ds fitted out)
  moreover have "fst ?run = None" by (simp add: example_run)
  moreover have "Merge_parquet ''out.parquet''
        (example_dataset\<lparr>value_matrix :=
           \<lparr>dtype = Float32, ncols = 2, rows = [[10/11, 20/11], [30/11, 40/11]]\<rparr>\<rparr>)
       \<in> set (trace (snd ?run))"
    using h(6) by (simp add: ds cast example_dataset_def)
  moreover have "files (snd ?run) ''out.parquet''
       = Some (Parquet (example_dataset\<lparr>value_matrix :=
           \<lparr>dtype = Float32, ncols = 2, rows = [[10/11, 20/11], [30/11, 40/11]]\<rparr>\<rparr>))"
    using h(7) np by (simp add: ds cast example_dataset_def)
  ultimately show ?thesis by blast
qed

lemma mask_rows_none:
  assumes len: "length train_ix = length (rows vals)" and none: "True \<notin> set train_ix"
  shows "mask_rows vals train_ix = Inr (vals\<lparr>rows := []\<rparr>)"
proof -
  have "\<forall>p \<in> set (zip train_ix (rows vals)). \<not> fst p"
    using none by (metis (full_types) in_set_zipE prod.collapse)
  then have "filter fst (zip train_ix (rows vals)) = []" by (simp add: filter_empty_conv)
  then show ?thesis using len by (simp add: mask_rows_def)
qed

text \<open>
  C1. When the mask selects no row of the dataset that was loaded, the run ends with the
  \<^verbatim>\<open>ValueError\<close> of the empty training set. It is raised in the call of \<open>fit\<close>, which
  the trace records, before any decomposition: the result is the same whatever the
  decomposition of the library, which was not consulted, and no operator was fitted. The
  files are as they were: nothing is transformed and nothing is written.
\<close>

theorem sphering_empty_training:
  assumes "mode = ''corr'' \<or> mode = ''cov''"
    and "files w dframe_path = Some (Parquet ds)"
      "n_rows (metadata ds) = length (rows (value_matrix ds))"
      "length (features ds) = ncols (value_matrix ds)"
    and "meta_getitem (metadata ds) column_norm = Inr c"
      "length c = length (rows (value_matrix ds))"
    and "True \<notin> set (isin c values_norm)"
  shows "sphering lib w dframe_path mode lambda' column_norm values_norm sphered_path
           spherer_path
         = (Some (ValueError (refusal lib ((value_matrix ds)\<lparr>rows := []\<rparr>))),
            w\<lparr>trace := trace w @
                 [Split_parquet dframe_path,
                  Fit \<lparr>kind = (if mode = ''corr'' then ZCA_corr else ZCA),
                       regularization = lambda'\<rparr>
                      ((value_matrix ds)\<lparr>rows := []\<rparr>)]\<rparr>)"
proof -
  have m: "mask_rows (value_matrix ds) (isin c values_norm) = Inr ((value_matrix ds)\<lparr>rows := []\<rparr>)"
    using assms(6,7) by (intro mask_rows_none) (simp_all add: isin_def)
  show ?thesis
    using assms(1-5) m
    by (auto simp: sphering_def split_parquet_def record_call_def fit_def Let_def)
qed

text \<open>
  No row of the example dataset has the value \<^verbatim>\<open>dmso\<close>: the run raises, and the world
  it leaves has the file it had and the two calls in its trace.
\<close>

theorem sphering_empty_training_witness:
  "isin [''control'', ''treated''] [''dmso''] = [False, False]
   \<and> sphering example_library example_world ''in.parquet'' ''cov'' (1/10) ''Metadata_kind''
       [''dmso''] ''out.parquet'' ''zca''
     = (Some (ValueError ''Found array with 0 sample(s)''),
        \<lparr>files = [''in.parquet'' \<mapsto> Parquet example_dataset],
         trace = [Split_parquet ''in.parquet'',
                  Fit \<lparr>kind = ZCA, regularization = 1/10\<rparr>
                      \<lparr>dtype = Float64, ncols = 2, rows = []\<rparr>]\<rparr>)"
  using sphering_empty_training [of "''cov''" example_world "''in.parquet''" example_dataset
      "''Metadata_kind''" "[''control'', ''treated'']" "[''dmso'']" example_library "1/10"
      "''out.parquet''" "''zca''"]
  by (simp add: example_world_def example_dataset_def example_library_def meta_getitem_def
      isin_def)

section \<open>Properties of the registry\<close>

text \<open>
  C4. Whatever the two keys, the registry has exactly the seven documented names; looking
  up any other name raises \<^verbatim>\<open>KeyError\<close>, and looking up one of the seven gives its unit:
  the keys themselves are not examined.
\<close>

theorem get_method_map_keys:
  "dict_keys (get_method_map batch_key label_key)
     = {''harmony'', ''mnn'', ''scanorama'', ''combat'', ''desc'', ''sphering'', ''scvi''}
   \<and> (name \<notin> {''harmony'', ''mnn'', ''scanorama'', ''combat'', ''desc'', ''sphering'', ''scvi''}
      \<longrightarrow> dict_getitem (get_method_map batch_key label_key) name = Inl (KeyError name))
   \<and> (name \<in> {''harmony'', ''mnn'', ''scanorama'', ''combat'', ''desc'', ''sphering'', ''scvi''}
      \<longrightarrow> (\<exists>unit. dict_getitem (get_method_map batch_key label_key) name = Inr unit))"
  by (auto simp: dict_keys_def dict_getitem_def get_method_map_def)

theorem get_method_map_keys_witness:
  "dict_getitem (get_method_map ''Metadata_Batch'' ''Metadata_JCP2022'') ''trvaep''
     = Inl (KeyError ''trvaep'')
   \<and> (\<exists>unit. dict_getitem (get_method_map '''' '''') ''combat'' = Inr unit)"
  using get_method_map_keys [of "''Metadata_Batch''" "''Metadata_JCP2022''" "''trvaep''"]
    get_method_map_keys [of "''''" "''''" "''combat''"]
  by simp

text \<open>
  C7. The unit registered under \<^verbatim>\<open>sphering\<close>, when called, stores the feature matrix
  as it is in the embedding slot \<open>corrected_embed\<close> and changes nothing else.
\<close>

theorem sphering_unit_is_identity:
  "\<exists>unit. dict_getitem (get_method_map batch_key label_key) ''sphering'' = Inr unit
         \<and> call ext unit adata corrected_embed
             = Inr (adata\<lparr>obsm := (obsm adata)(corrected_embed \<mapsto> X adata)\<rparr>)"
  by (simp add: dict_getitem_def get_method_map_def identity_def)

theorem sphering_unit_is_identity_witness:
  "\<exists>unit. dict_getitem (get_method_map ''Metadata_Batch'' ''Metadata_JCP2022'') ''sphering''
            = Inr unit
         \<and> call example_external unit example_adata ''X_sphering''
             = Inr \<lparr>X = \<lparr>dtype = Float64, ncols = 2, rows = [[1, - 2], [3, 4]]\<rparr>,
                    obs = \<lparr>n_rows = 2, columns = [(''Metadata_Batch'', [''b1'', ''b2''])]\<rparr>,
                    obsm = [''X_sphering'' \<mapsto> \<lparr>dtype = Float64, ncols = 2, rows = [[1, - 2], [3, 4]]\<rparr>]\<rparr>"
  using sphering_unit_is_identity [of "''Metadata_Batch''" "''Metadata_JCP2022''"
      example_external example_adata "''X_sphering''"]
  by (simp add: example_adata_def)

lemma subtract_min_nonneg:
  assumes "array_min a = Inr m"
  shows "\<forall>x \<in> set (concat (rows (subtract a m))). 0 \<le> x"
proof -
  have ne: "concat (rows a) \<noteq> []" and m: "m = Min (set (concat (rows a)))"
    using assms by (auto simp: array_min_def split: if_splits)
  have "concat (rows (subtract a m)) = map (\<lambda>x. x - m) (concat (rows a))"
    by (simp add: subtract_def map_concat)
  moreover have "\<forall>y \<in> set (concat (rows a)). m \<le> y" using m by simp
  ultimately show ?thesis by auto
qed

text \<open>
  C9. \<^verbatim>\<open>scvi\<close> returns exactly when each step of the following chain does, and with its
  result: the minimum of the feature matrix is subtracted from a copy; the model is set
  up on that copy with the batch and label keys, built with 2 layers and 30 latent
  dimensions, and trained; its latent representation is stored in the slot
  \<open>corrected_embed\<close> of the dataset, of which nothing else changes. The elements of the
  shifted copy are all non-negative. When \<^verbatim>\<open>scvi\<close> raises, the dataset was not touched:
  its only assignment is the last statement.
\<close>

theorem scvi_effect:
  "(scvi ext adata batch_key corrected_embed label_key = Inr adata'
     \<longleftrightarrow> (\<exists>min_value registered vae trained latent.
            array_min (X adata) = Inr min_value
          \<and> setup_anndata ext (adata\<lparr>X := subtract (X adata) min_value\<rparr>) batch_key label_key
              = Inr registered
          \<and> SCVI ext registered 2 30 = Inr vae
          \<and> view_anndata_setup ext vae registered = None
          \<and> train ext vae = Inr trained
          \<and> get_latent_representation ext trained = Inr latent
          \<and> adata' = adata\<lparr>obsm := (obsm adata)(corrected_embed \<mapsto> latent)\<rparr>))
   \<and> (\<forall>min_value. array_min (X adata) = Inr min_value \<longrightarrow>
         (\<forall>x \<in> set (concat (rows (subtract (X adata) min_value))). 0 \<le> x))
   \<and> (scvi ext adata batch_key corrected_embed label_key = Inr adata'
         \<longrightarrow> X adata' = X adata \<and> obs adata' = obs adata)"
proof (intro conjI)
  show "scvi ext adata batch_key corrected_embed label_key = Inr adata'
     \<longleftrightarrow> (\<exists>min_value registered vae trained latent.
            array_min (X adata) = Inr min_value
          \<and> setup_anndata ext (adata\<lparr>X := subtract (X adata) min_value\<rparr>) batch_key label_key
              = Inr registered
          \<and> SCVI ext registered 2 30 = Inr vae
          \<and> view_anndata_setup ext vae registered = None
          \<and> train ext vae = Inr trained
          \<and> get_latent_representation ext trained = Inr latent
          \<and> adata' = adata\<lparr>obsm := (obsm adata)(corrected_embed \<mapsto> latent)\<rparr>)"
    by (auto simp: scvi_def Let_def split: sum.splits option.splits)
  show "\<forall>min_value. array_min (X adata) = Inr min_value \<longrightarrow>
         (\<forall>x \<in> set (concat (rows (subtract (X adata) min_value))). 0 \<le> x)"
    using subtract_min_nonneg by blast
  show "scvi ext adata batch_key corrected_embed label_key = Inr adata'
         \<longrightarrow> X adata' = X adata \<and> obs adata' = obs adata"
    by (auto simp: scvi_def Let_def split: sum.splits option.splits)
qed

text \<open>
  On a dataset of four cells whose least element is -2, the copy is shifted by 2 and the
  latent representation of the example model, of 30 columns, is stored under
  \<^verbatim>\<open>X_scvi\<close>.
\<close>

theorem scvi_effect_witness:
  "scvi example_external example_cells ''Metadata_Batch'' ''X_scvi'' ''Metadata_JCP2022''
     = Inr (example_cells\<lparr>obsm := [''X_scvi'' \<mapsto>
         \<lparr>dtype = Float64, ncols = 30,
          rows = [replicate 30 3, replicate 30 11, replicate 30 9, replicate 30 8]\<rparr>]\<rparr>)
   \<and> array_min (X example_cells) = Inr (- 2)
   \<and> rows (subtract (X example_cells) (- 2)) = [[3, 0], [5, 6], [2, 7], [4, 4]]"
proof -
  let ?shifted = "example_cells\<lparr>X := subtract (X example_cells) (- 2)\<rparr>"
  let ?vae = "(X ?shifted, 30::nat)"
  let ?latent = "\<lparr>dtype = Float64, ncols = 30,
          rows = [replicate 30 3, replicate 30 11, replicate 30 9, replicate 30 8]\<rparr>"
  have mn: "array_min (X example_cells) = Inr (- 2)"
    by (simp add: array_min_def example_cells_def)
  have sh: "rows (subtract (X example_cells) (- 2)) = [[3, 0], [5, 6], [2, 7], [4, 4]]"
    by (simp add: subtract_def example_cells_def)
  have registered: "setup_anndata example_external ?shifted ''Metadata_Batch'' ''Metadata_JCP2022''
      = Inr ?shifted"
    by (simp add: example_external_def example_cells_def)
  have build: "SCVI example_external ?shifted 2 30 = Inr ?vae"
    "view_anndata_setup example_external ?vae ?shifted = None"
    "train example_external ?vae = Inr ?vae"
    by (simp_all add: example_external_def)
  have latent: "get_latent_representation example_external ?vae = Inr ?latent"
    by (simp add: example_external_def subtract_def example_cells_def)
  have "scvi example_external example_cells ''Metadata_Batch'' ''X_scvi'' ''Metadata_JCP2022''
     = Inr (example_cells\<lparr>obsm := (obsm example_cells)(''X_scvi'' \<mapsto> ?latent)\<rparr>)"
    using scvi_effect [of example_external example_cells "''Metadata_Batch''" "''X_scvi''"
        "''Metadata_JCP2022''"
        "example_cells\<lparr>obsm := (obsm example_cells)(''X_scvi'' \<mapsto> ?latent)\<rparr>"]
      mn registered build latent
    by blast
  moreover have "obsm example_cells = Map.empty" by (simp add: example_cells_def)
  ultimately show ?thesis using mn sh by simp
qed

end
